theory Spec2Isabelle
  imports Complex_Main "HOL-Library.Sublist" "HOL-Library.AList"
begin

section \<open>Constants of the plugin\<close>

text \<open>
  The status codes of \<^verbatim>\<open>TESTRAIL_TEST_STATUS\<close> that the publishing code reads, and the
  comment budget \<^verbatim>\<open>COMMENT_SIZE_LIMIT\<close>.
\<close>

definition status_blocked :: int where
  "status_blocked = 2"

definition status_failed :: int where
  "status_failed = 5"

definition status_terraformerror :: int where
  "status_terraformerror = 8"

definition COMMENT_SIZE_LIMIT :: nat where
  "COMMENT_SIZE_LIMIT = 4000"

section \<open>Python strings\<close>

text \<open>
  A Python \<^verbatim>\<open>str\<close> is a list of characters. \<open>nl\<close> is the newline character,
  \<open>bsl\<close> the backslash.
\<close>

definition nl :: char where
  "nl = CHR 0x0A"

definition bsl :: char where
  "bsl = CHR 0x5C"

text \<open>\<^verbatim>\<open>needle in hay\<close> on two strings: \<open>needle\<close> occurs as a contiguous run.\<close>

definition str_in :: "string \<Rightarrow> string \<Rightarrow> bool" where
  "str_in needle hay = sublist needle hay"

text \<open>\<^verbatim>\<open>s.startswith(p)\<close>.\<close>

definition startswith :: "string \<Rightarrow> string \<Rightarrow> bool" where
  "startswith s p = prefix p s"

text \<open>
  \<^verbatim>\<open>s.split(sep)\<close> for a non-empty separator: the pieces between the non-overlapping
  occurrences of \<open>sep\<close>, found from the left. The third argument is the piece read so
  far. (Python raises \<^verbatim>\<open>ValueError\<close> on an empty separator; both separators of the
  plugin are literals.)
\<close>

fun split_from :: "string \<Rightarrow> string \<Rightarrow> string \<Rightarrow> string list" where
  "split_from sep [] acc = [acc]"
| "split_from sep (c # cs) acc =
     (if sep \<noteq> [] \<and> prefix sep (c # cs)
      then acc # split_from sep (drop (length sep) (c # cs)) []
      else split_from sep cs (acc @ [c]))"

definition split :: "string \<Rightarrow> string \<Rightarrow> string list" where
  "split s sep = split_from sep s []"

text \<open>\<^verbatim>\<open>s.replace("\n", "\n    ")\<close>: four spaces after every newline.\<close>

definition indent_newlines :: "string \<Rightarrow> string" where
  "indent_newlines s = concat (map (\<lambda>c. if c = nl then nl # ''    '' else [c]) s)"

text \<open>\<^verbatim>\<open>s[-n:]\<close> for \<open>n > 0\<close>: the last \<open>n\<close> characters, all of \<open>s\<close> when it is shorter.\<close>

definition last_chars :: "nat \<Rightarrow> string \<Rightarrow> string" where
  "last_chars n s = drop (length s - n) s"

text \<open>\<^verbatim>\<open>str(n)\<close> of an integer: its decimal digits, with a minus sign when negative.\<close>

definition digit_char :: "nat \<Rightarrow> char" where
  "digit_char d = ''0123456789'' ! d"

fun str_nat :: "nat \<Rightarrow> string" where
  "str_nat n = (if n < 10 then [digit_char n] else str_nat (n div 10) @ [digit_char (n mod 10)])"

declare str_nat.simps [simp del]

definition str_int :: "int \<Rightarrow> string" where
  "str_int i = (if i < 0 then CHR ''-'' # str_nat (nat (- i)) else str_nat (nat i))"

section \<open>Result records and the plugin's state\<close>

text \<open>
  An object of which the code reads only its truth value and its \<^verbatim>\<open>str()\<close>: the
  parametrization of a test (\<^verbatim>\<open>item.callspec.params\<close>, a dictionary).
\<close>

record pyobj =
  truthy :: bool
  str_of :: string

text \<open>
  One dictionary of \<^verbatim>\<open>self.results\<close>, as \<^verbatim>\<open>add_result\<close> builds it. The comment is a
  string (\<^verbatim>\<open>add_result\<close> converts it), the duration is the number the float stands
  for, \<open>None\<close> is Python's \<^verbatim>\<open>None\<close>.
\<close>

record result =
  case_id :: int
  status_id :: int
  comment :: string
  duration :: real
  defects :: "string option"
  test_parametrize :: "pyobj option"

text \<open>One entry of an upload payload; \<open>None\<close> in \<open>e_version\<close> and \<open>e_elapsed\<close> is an
  absent key, \<open>None\<close> in \<open>e_defects\<close> and \<open>e_comment\<close> is the value \<^verbatim>\<open>None\<close>.\<close>

record entry =
  e_status_id :: int
  e_case_id :: int
  e_defects :: "string option"
  e_version :: "string option"
  e_comment :: "string option"
  e_elapsed :: "string option"

text \<open>The endpoints the session-finish step calls, and their paths.\<close>

datatype endpoint =
    AddResultsForCases int
  | AddResultForCase int string
  | CloseRun int
  | ClosePlan int
  | GetPlan int
  | GetTests int


text \<open>The body of a POST: a batch of entries, one status with a comment, or \<^verbatim>\<open>{}\<close>.\<close>

datatype body =
    Results "entry list"
  | StatusComment string string
  | NoData

datatype request = Post endpoint body | Get endpoint

text \<open>
  The fields of \<^verbatim>\<open>PyTestRailPlugin\<close> that the session-finish step reads or writes.
  \<open>sent\<close> is not a field of the class: it records, in order, the calls made on
  \<^verbatim>\<open>self.client\<close>.
\<close>

record plugin =
  results :: "result list"
  testrun_id :: int
  testplan_id :: int
  version :: string
  close_on_complete :: bool
  publish_blocked :: bool
  custom_comment :: "string option"
  sent :: "request list"

section \<open>Recording a result\<close>

text \<open>
  \<^verbatim>\<open>add_result\<close>: one record per test id. The loop assigns to \<^verbatim>\<open>status\<close>, so the
  status is carried from one iteration to the next. \<open>comment\<close> is the argument after
  \<^verbatim>\<open>str()\<close>.
\<close>

fun add_result_loop ::
  "int list \<Rightarrow> int \<Rightarrow> string \<Rightarrow> string option \<Rightarrow> real \<Rightarrow> pyobj option \<Rightarrow> result list \<Rightarrow> result list"
where
  "add_result_loop [] status cmt dfs dur par rs = rs"
| "add_result_loop (test_id # test_ids) status cmt dfs dur par rs =
     (let status' = (if status = 5 \<and> str_in ''TerraformException'' cmt then 8 else status);
          data = \<lparr>case_id = test_id, status_id = status', comment = cmt, duration = dur,
                  defects = dfs, test_parametrize = par\<rparr>
      in add_result_loop test_ids status' cmt dfs dur par (rs @ [data]))"

definition add_result ::
  "plugin \<Rightarrow> int list \<Rightarrow> int \<Rightarrow> string \<Rightarrow> string option \<Rightarrow> real \<Rightarrow> pyobj option \<Rightarrow> plugin"
where
  "add_result p test_ids status cmt dfs dur par =
     p\<lparr>results := add_result_loop test_ids status cmt dfs dur par (results p)\<rparr>"

section \<open>Building the upload payload\<close>

text \<open>
  \<^verbatim>\<open>int(round(d))\<close> in Python 3: the nearest integer, the even one when \<open>d\<close> lies
  half-way between two. On a finite float the comparison with 1, the test against 0 and
  the rounding are exact, so the float is modelled by the real number it stands for.
\<close>

definition py_round :: "real \<Rightarrow> int" where
  "py_round x =
     (let f = \<lfloor>x\<rfloor> in
      if x - of_int f < 1 / 2 then f
      else if 1 / 2 < x - of_int f then f + 1
      else if even f then f else f + 1)"

text \<open>The truth value of an optional string: \<^verbatim>\<open>None\<close> and \<^verbatim>\<open>''\<close> are false.\<close>

definition str_truthy :: "string option \<Rightarrow> bool" where
  "str_truthy x = (case x of None \<Rightarrow> False | Some s \<Rightarrow> s \<noteq> [])"

text \<open>The lines \<^verbatim>\<open>"# Test parametrize: #\n" + str(test_parametrize) + "\n\n"\<close>.\<close>

definition parametrize_text :: "pyobj option \<Rightarrow> string" where
  "parametrize_text par =
     (case par of
        None \<Rightarrow> []
      | Some ob \<Rightarrow>
          if truthy ob then ''# Test parametrize: #\<newline>'' @ str_of ob @ ''\<newline>\<newline>'' else [])"

text \<open>
  The part both branches of \<^verbatim>\<open>if self.custom_comment\<close> append: the heading, the
  truncation marker when the comment is over the limit, and the indented tail.
  (\<^verbatim>\<open>converter(str(comment), "utf-8")\<close> encodes the string and decodes it again: it
  gives the string back.)
\<close>

definition pytest_result_text :: "string \<Rightarrow> string" where
  "pytest_result_text cmt =
     ''# Pytest result: #\<newline>''
     @ (if COMMENT_SIZE_LIMIT < length cmt then ''Log truncated\<newline>...\<newline>'' else [])
     @ ''    '' @ indent_newlines (last_chars COMMENT_SIZE_LIMIT cmt)"

definition entry_comment :: "plugin \<Rightarrow> result \<Rightarrow> string option" where
  "entry_comment p r =
     (if comment r \<noteq> [] then
        (case custom_comment p of
           Some cc \<Rightarrow>
             if cc \<noteq> []
             then Some (parametrize_text (test_parametrize r) @ cc @ ''\<newline>''
                        @ pytest_result_text (comment r))
             else Some (parametrize_text (test_parametrize r) @ pytest_result_text (comment r))
         | None \<Rightarrow> Some (parametrize_text (test_parametrize r) @ pytest_result_text (comment r)))
      else custom_comment p)"

definition entry_elapsed :: "real \<Rightarrow> string option" where
  "entry_elapsed d =
     (if d \<noteq> 0 then Some (str_int (if d < 1 then 1 else py_round d) @ ''s'') else None)"

text \<open>One iteration of the loop \<^verbatim>\<open>for result in self.results\<close> of \<^verbatim>\<open>add_results\<close>.\<close>

definition build_entry :: "plugin \<Rightarrow> result \<Rightarrow> entry" where
  "build_entry p r =
     \<lparr>e_status_id = status_id r,
      e_case_id = case_id r,
      e_defects = defects r,
      e_version = (if version p \<noteq> [] then Some (version p) else None),
      e_comment = entry_comment p r,
      e_elapsed = entry_elapsed (duration r)\<rparr>"

section \<open>The client\<close>

text \<open>
  The HTTP client is a collaborator outside the repository. A response is taken in the
  shape the code reads it: what \<^verbatim>\<open>client.get_error\<close> says of it, the dictionaries a
  loop over it yields (with their \<^verbatim>\<open>comment\<close>, their \<^verbatim>\<open>status_id\<close> as text and what
  \<^verbatim>\<open>get_error\<close> says of each), the runs of a plan's entries as (id, is_completed),
  and the tests of a run as (case_id, status_id). The client answers a request knowing
  the requests made before it.
\<close>

record resp_item =
  ri_comment :: string
  ri_status_id :: string
  ri_error :: "string option"

record response =
  r_error :: "string option"
  r_items :: "resp_item list"
  r_runs :: "(int \<times> bool) list list"
  r_tests :: "(int \<times> int) list"

type_synonym client = "request list \<Rightarrow> request \<Rightarrow> response"

definition send :: "client \<Rightarrow> request \<Rightarrow> plugin \<Rightarrow> response \<times> plugin" where
  "send cl rq p = (cl (sent p) rq, p\<lparr>sent := sent p @ [rq]\<rparr>)"

text \<open>The exceptions the session-finish step can raise by itself.\<close>

datatype py_error = NoResultsToPublish | IndexError | UnboundLocalError | TypeError

section \<open>Run and plan helpers\<close>

definition get_tests :: "client \<Rightarrow> int \<Rightarrow> plugin \<Rightarrow> (int \<times> int) list option \<times> plugin" where
  "get_tests cl run p =
     (let (rsp, p') = send cl (Get (GetTests run)) p
      in if str_truthy (r_error rsp) then (None, p') else (Some (r_tests rsp), p'))"

definition get_available_testruns :: "client \<Rightarrow> int \<Rightarrow> plugin \<Rightarrow> int list \<times> plugin" where
  "get_available_testruns cl plan p =
     (let (rsp, p') = send cl (Get (GetPlan plan)) p
      in if str_truthy (r_error rsp) then ([], p')
         else (map fst (filter (\<lambda>run. \<not> snd run) (concat (r_runs rsp))), p'))"

definition close_test_run :: "client \<Rightarrow> int \<Rightarrow> plugin \<Rightarrow> plugin" where
  "close_test_run cl run p = snd (send cl (Post (CloseRun run) NoData) p)"

definition close_test_plan :: "client \<Rightarrow> int \<Rightarrow> plugin \<Rightarrow> plugin" where
  "close_test_plan cl plan p = snd (send cl (Post (ClosePlan plan) NoData) p)"

definition add_terraform_error_results :: "client \<Rightarrow> int \<Rightarrow> string \<Rightarrow> string \<Rightarrow> plugin \<Rightarrow> plugin" where
  "add_terraform_error_results cl run test_id terraform_error p =
     snd (send cl (Post (AddResultForCase run test_id)
                        (StatusComment ''8'' (''Terraform Exception: '' @ terraform_error))) p)"

section \<open>Reading the error text\<close>

text \<open>
  The regular expression of \<^verbatim>\<open>extract_terraform_errors\<close>,
  \<^verbatim>\<open>case (\d+).*?TerraformException: (.+?)\\n\<close>, as a sequence of atoms: a literal,
  the greedy group \<^verbatim>\<open>(\d+)\<close>, the lazy \<^verbatim>\<open>.*?\<close> and the lazy group \<^verbatim>\<open>(.+?)\<close>.
  The pattern is a raw string, so its last two characters match a backslash followed
  by the letter n. The dot matches every character but the newline; the digits are
  the ten ASCII digits.
\<close>

datatype atom = Lit string | DigitsGreedy | AnyLazy | Any1Lazy

definition is_digit :: "char \<Rightarrow> bool" where
  "is_digit c = (c \<in> set ''0123456789'')"

text \<open>The first alternative that succeeds, in the order the matcher tries them.\<close>

fun first_some :: "('a \<Rightarrow> 'b option) \<Rightarrow> 'a list \<Rightarrow> 'b option" where
  "first_some f [] = None"
| "first_some f (x # xs) = (case f x of Some y \<Rightarrow> Some y | None \<Rightarrow> first_some f xs)"

text \<open>
  Backtracking match of a sequence of atoms at the start of \<open>s\<close>: the groups in order
  and the text after the match. A greedy atom tries the longest run first, a lazy one
  the shortest.
\<close>

primrec rmatch :: "atom list \<Rightarrow> string \<Rightarrow> (string list \<times> string) option" where
  "rmatch [] s = Some ([], s)"
| "rmatch (a # as) s =
     (case a of
        Lit l \<Rightarrow> if prefix l s then rmatch as (drop (length l) s) else None
      | DigitsGreedy \<Rightarrow>
          first_some (\<lambda>k. map_option (\<lambda>(gs, r). (take k s # gs, r)) (rmatch as (drop k s)))
            (rev [1..<Suc (length (takeWhile is_digit s))])
      | AnyLazy \<Rightarrow>
          first_some (\<lambda>k. rmatch as (drop k s))
            [0..<Suc (length (takeWhile (\<lambda>c. c \<noteq> nl) s))]
      | Any1Lazy \<Rightarrow>
          first_some (\<lambda>k. map_option (\<lambda>(gs, r). (take k s # gs, r)) (rmatch as (drop k s)))
            [1..<Suc (length (takeWhile (\<lambda>c. c \<noteq> nl) s))])"

definition terraform_pattern :: "atom list" where
  "terraform_pattern =
     [Lit ''case '', DigitsGreedy, AnyLazy, Lit ''TerraformException: '', Any1Lazy, Lit [bsl, CHR ''n'']]"

lemma first_some_SomeD: "first_some f xs = Some y \<Longrightarrow> \<exists>x \<in> set xs. f x = Some y"
  by (induction xs) (auto split: option.splits)

lemma rmatch_length: "rmatch as s = Some (gs, r) \<Longrightarrow> length r \<le> length s"
proof (induction as arbitrary: s gs r)
  case Nil
  then show ?case by simp
next
  case (Cons a as)
  show ?case
  proof (cases a)
    case (Lit l)
    with Cons.prems have "rmatch as (drop (length l) s) = Some (gs, r)"
      by (simp split: if_splits)
    from Cons.IH [OF this] show ?thesis by simp
  next
    case DigitsGreedy
    with Cons.prems obtain k gs' where "rmatch as (drop k s) = Some (gs', r)"
      by (auto dest!: first_some_SomeD)
    from Cons.IH [OF this] show ?thesis by simp
  next
    case AnyLazy
    with Cons.prems obtain k where "rmatch as (drop k s) = Some (gs, r)"
      by (auto dest!: first_some_SomeD)
    from Cons.IH [OF this] show ?thesis by simp
  next
    case Any1Lazy
    with Cons.prems obtain k gs' where "rmatch as (drop k s) = Some (gs', r)"
      by (auto dest!: first_some_SomeD)
    from Cons.IH [OF this] show ?thesis by simp
  qed
qed

lemma rmatch_Lit:
  "rmatch (Lit l # as) s = (if prefix l s then rmatch as (drop (length l) s) else None)"
  by simp

lemma terraform_pattern_consumes:
  assumes "rmatch terraform_pattern s = Some (gs, r)"
  shows "length r < length s"
proof -
  obtain rest where pat: "terraform_pattern = Lit ''case '' # rest"
    by (simp add: terraform_pattern_def)
  from assms have m: "rmatch (Lit ''case '' # rest) s = Some (gs, r)"
    by (simp only: pat)
  have p: "prefix ''case '' s"
  proof (rule ccontr)
    assume "\<not> prefix ''case '' s"
    with m show False by (simp only: rmatch_Lit if_False option.distinct)
  qed
  with m have "rmatch rest (drop (length ''case '') s) = Some (gs, r)"
    by (simp only: rmatch_Lit if_True)
  from rmatch_length [OF this] have "length r \<le> length s - 5"
    by simp
  moreover from p have "5 \<le> length s"
    by (auto simp: prefix_def)
  ultimately show ?thesis by simp
qed

text \<open>
  \<^verbatim>\<open>re.finditer\<close>: the matches from left to right, each search starting where the
  match before it ended. A match is the list of its groups.
\<close>

function finditer :: "string \<Rightarrow> string list list" where
  "finditer s =
     (case rmatch terraform_pattern s of
        Some (gs, r) \<Rightarrow> gs # finditer r
      | None \<Rightarrow> (case s of [] \<Rightarrow> [] | c # cs \<Rightarrow> finditer cs))"
  by pat_completeness auto
termination
  by (relation "measure length") (auto dest: terraform_pattern_consumes)

declare finditer.simps [simp del]

text \<open>\<^verbatim>\<open>match.group(k)\<close> for \<open>k \<ge> 1\<close>.\<close>

definition group_of :: "string list \<Rightarrow> nat \<Rightarrow> string" where
  "group_of m k = m ! (k - 1)"

text \<open>
  \<^verbatim>\<open>extract_terraform_errors\<close>. The dictionary is an association list in insertion
  order: assigning to a key that is present replaces its value where it stands,
  a new key goes to the end.
\<close>

definition extract_terraform_errors :: "string \<Rightarrow> (string \<times> string) list" where
  "extract_terraform_errors error_message =
     foldl (\<lambda>terraform_errors m. AList.update (group_of m 1) (group_of m 2) terraform_errors)
           [] (finditer error_message)"

text \<open>\<^verbatim>\<open>xs[1]\<close> and \<^verbatim>\<open>xs[0]\<close> on a list.\<close>

fun item1 :: "'a list \<Rightarrow> py_error + 'a" where
  "item1 (x # y # ys) = Inr y"
| "item1 xs = Inl IndexError"

fun item0 :: "'a list \<Rightarrow> py_error + 'a" where
  "item0 (x # xs) = Inr x"
| "item0 [] = Inl IndexError"

text \<open>
  The comprehension
  \<^verbatim>\<open>[part.split('case ')[1].split(' ')[0] for part in error_message_parts if 'case' in part]\<close>;
  the first index error ends it.
\<close>

fun invalid_ids_of_parts :: "string list \<Rightarrow> py_error + string list" where
  "invalid_ids_of_parts [] = Inr []"
| "invalid_ids_of_parts (part # parts) =
     (if str_in ''case'' part then
        (case item1 (split part ''case '') of
           Inl e \<Rightarrow> Inl e
         | Inr t \<Rightarrow>
            (case item0 (split t '' '') of
               Inl e \<Rightarrow> Inl e
             | Inr tok \<Rightarrow>
                (case invalid_ids_of_parts parts of
                   Inl e \<Rightarrow> Inl e
                 | Inr toks \<Rightarrow> Inr (tok # toks))))
      else invalid_ids_of_parts parts)"

definition invalid_test_ids_of :: "string \<Rightarrow> py_error + string list" where
  "invalid_test_ids_of error = invalid_ids_of_parts (split error '')'')"

section \<open>Submitting the batch\<close>

text \<open>
  The case ids of the tests whose status is blocked, and the filter
  \<^verbatim>\<open>result.get("case_id") not in blocked_tests_list\<close>.
\<close>

definition blocked_tests_list :: "(int \<times> int) list \<Rightarrow> int list" where
  "blocked_tests_list tests = map fst (filter (\<lambda>t. snd t = status_blocked) tests)"

text \<open>
  The first part of \<^verbatim>\<open>add_results\<close>: the in-place sort by \<^verbatim>\<open>case_id\<close> (Python's
  \<^verbatim>\<open>list.sort\<close> is stable, as \<open>sort_key\<close> is) and, when \<^verbatim>\<open>publish_blocked\<close> is
  false, the removal of the results of blocked cases. \<^verbatim>\<open>get_tests\<close> returns
  \<^verbatim>\<open>None\<close> on an error, and the loop over \<^verbatim>\<open>None\<close> raises.
\<close>

definition sort_and_filter :: "client \<Rightarrow> int \<Rightarrow> plugin \<Rightarrow> py_error option \<times> plugin" where
  "sort_and_filter cl run p =
     (let p1 = p\<lparr>results := sort_key case_id (results p)\<rparr> in
      if \<not> publish_blocked p1 then
        (case get_tests cl run p1 of
           (None, p2) \<Rightarrow> (Some TypeError, p2)
         | (Some tests, p2) \<Rightarrow>
             (None, p2\<lparr>results :=
                filter (\<lambda>r. case_id r \<notin> set (blocked_tests_list tests)) (results p2)\<rparr>))
      else (None, p1))"

text \<open>
  The second part: one POST with every entry, then the loop over the response, then
  \<^verbatim>\<open>get_error\<close> on the last element the loop saw (none, when the response was
  empty). The value is the error returned, \<open>None\<close> for \<^verbatim>\<open>None\<close>.
\<close>

definition post_batch :: "client \<Rightarrow> int \<Rightarrow> plugin \<Rightarrow> (py_error + string option) \<times> plugin" where
  "post_batch cl run p =
     (let (rsp, p1) = send cl (Post (AddResultsForCases run)
                                    (Results (map (build_entry p) (results p)))) p;
          p2 = foldl (\<lambda>q it. if str_in ''TerraformException'' (ri_comment it)
                              then add_terraform_error_results cl run (ri_status_id it) (ri_comment it) q
                              else q)
                     p1 (r_items rsp)
      in case r_items rsp of
           [] \<Rightarrow> (Inl UnboundLocalError, p2)
         | _ # _ \<Rightarrow>
             (let error = ri_error (last (r_items rsp))
              in if str_truthy error then (Inr error, p2) else (Inr None, p2)))"

definition add_results :: "client \<Rightarrow> int \<Rightarrow> plugin \<Rightarrow> (py_error + string option) \<times> plugin" where
  "add_results cl run p =
     (case sort_and_filter cl run p of
        (Some e, p') \<Rightarrow> (Inl e, p')
      | (None, p') \<Rightarrow> post_batch cl run p')"

section \<open>Reconciliation\<close>

text \<open>
  \<^verbatim>\<open>result['case_id'] not in invalid_test_ids\<close> compares an integer with strings:
  the two are values of different Python types.
\<close>

datatype pyval = PInt int | PStr string

definition case_id_in :: "int \<Rightarrow> string list \<Rightarrow> bool" where
  "case_id_in c ids = (PInt c \<in> set (map PStr ids))"

definition error_entry :: "result \<Rightarrow> string \<Rightarrow> entry" where
  "error_entry r error =
     \<lparr>e_status_id = status_failed, e_case_id = case_id r, e_defects = Some [],
      e_version = None, e_comment = Some error, e_elapsed = None\<rparr>"

definition strip_C :: "string \<Rightarrow> string" where
  "strip_C i = (if startswith i ''C'' then drop 1 i else i)"

definition add_error_results :: "client \<Rightarrow> int \<Rightarrow> string list \<Rightarrow> string \<Rightarrow> plugin \<Rightarrow> plugin" where
  "add_error_results cl run invalid_test_ids error p =
     (let ids = map strip_C invalid_test_ids;
          valid_results = filter (\<lambda>r. \<not> case_id_in (case_id r) ids) (results p)
      in foldl (\<lambda>q r. snd (send cl (Post (AddResultsForCases run) (Results [error_entry r error])) q))
               p valid_results)"

text \<open>
  The two paths of \<^verbatim>\<open>publish_results_for_run\<close> after an error. The list
  \<^verbatim>\<open>valid_results\<close> that the generic path computes is a local variable that is not
  read again.
\<close>

definition terraform_path :: "client \<Rightarrow> int \<Rightarrow> (string \<times> string) list \<Rightarrow> plugin \<Rightarrow> plugin" where
  "terraform_path cl run terraform_errors p =
     foldl (\<lambda>q (test_id, terraform_error). add_terraform_error_results cl run test_id terraform_error q)
           p terraform_errors"

definition generic_path :: "client \<Rightarrow> int \<Rightarrow> string \<Rightarrow> plugin \<Rightarrow> py_error option \<times> plugin" where
  "generic_path cl run error p =
     (case invalid_test_ids_of error of
        Inl e \<Rightarrow> (Some e, p)
      | Inr invalid_test_ids \<Rightarrow>
          (None, foldl (\<lambda>q invalid_test_id. add_error_results cl run [invalid_test_id] error q)
                       p invalid_test_ids))"

definition reconcile :: "client \<Rightarrow> int \<Rightarrow> string \<Rightarrow> plugin \<Rightarrow> py_error option \<times> plugin" where
  "reconcile cl run error p =
     (let terraform_errors = extract_terraform_errors error in
      if terraform_errors \<noteq> [] then (None, terraform_path cl run terraform_errors p)
      else generic_path cl run error p)"

definition publish_results_for_run :: "client \<Rightarrow> int \<Rightarrow> plugin \<Rightarrow> py_error option \<times> plugin" where
  "publish_results_for_run cl run p =
     (case add_results cl run p of
        (Inl e, p') \<Rightarrow> (Some e, p')
      | (Inr None, p') \<Rightarrow> (None, p')
      | (Inr (Some error), p') \<Rightarrow>
          if error \<noteq> [] then reconcile cl run error p' else (None, p'))"

section \<open>The session-finish hook\<close>

fun publish_runs :: "client \<Rightarrow> int list \<Rightarrow> plugin \<Rightarrow> py_error option \<times> plugin" where
  "publish_runs cl [] p = (None, p)"
| "publish_runs cl (run # runs) p =
     (case publish_results_for_run cl run p of
        (Some e, p') \<Rightarrow> (Some e, p')
      | (None, p') \<Rightarrow> publish_runs cl runs p')"

definition publish_step :: "client \<Rightarrow> plugin \<Rightarrow> py_error option \<times> plugin" where
  "publish_step cl p =
     (if testrun_id p \<noteq> 0 then publish_results_for_run cl (testrun_id p) p
      else if testplan_id p \<noteq> 0 then
        (let (testruns, p') = get_available_testruns cl (testplan_id p) p
         in publish_runs cl testruns p')
      else (None, p))"

definition close_step :: "client \<Rightarrow> plugin \<Rightarrow> plugin" where
  "close_step cl p =
     (if close_on_complete p then
        (if testrun_id p \<noteq> 0 then close_test_run cl (testrun_id p) p
         else if testplan_id p \<noteq> 0 then close_test_plan cl (testplan_id p) p
         else p)
      else p)"

text \<open>
  \<^verbatim>\<open>pytest_sessionfinish\<close>: the exception raised, if any, and the state it leaves.
\<close>

definition pytest_sessionfinish :: "client \<Rightarrow> plugin \<Rightarrow> py_error option \<times> plugin" where
  "pytest_sessionfinish cl p =
     (if results p = [] then (Some NoResultsToPublish, p)
      else
        (case publish_step cl p of
           (Some e, p') \<Rightarrow> (Some e, p')
         | (None, p') \<Rightarrow> (None, close_step cl p')))"

section \<open>Notions used in the statements\<close>

text \<open>What stands before the heading in an uploaded comment: the parametrization and
  the custom comment's line.\<close>

definition comment_prefix :: "plugin \<Rightarrow> result \<Rightarrow> string" where
  "comment_prefix p r =
     parametrize_text (test_parametrize r)
     @ (case custom_comment p of
          None \<Rightarrow> []
        | Some cc \<Rightarrow> if cc \<noteq> [] then cc @ ''\<newline>'' else [])"

text \<open>The uploaded comment ends with the last \<open>COMMENT_SIZE_LIMIT\<close> characters of the
  recorded one, character for character.\<close>

definition ends_with_tail :: "string option \<Rightarrow> string \<Rightarrow> bool" where
  "ends_with_tail uploaded cmt =
     (case uploaded of
        None \<Rightarrow> False
      | Some u \<Rightarrow> suffix (last_chars COMMENT_SIZE_LIMIT cmt) u)"

text \<open>The single-result request of \<^verbatim>\<open>add_terraform_error_results\<close> for a pair of a
  test id and a message, and the request \<^verbatim>\<open>add_error_results\<close> makes for a result.\<close>

definition terraform_request :: "int \<Rightarrow> string \<times> string \<Rightarrow> request" where
  "terraform_request run tm =
     Post (AddResultForCase run (fst tm)) (StatusComment ''8'' (''Terraform Exception: '' @ snd tm))"


text \<open>Sample states and results for the concrete instances below.\<close>

definition p0 :: plugin where
  "p0 = \<lparr>results = [], testrun_id = 1, testplan_id = 0, version = [], close_on_complete = False,
         publish_blocked = True, custom_comment = None, sent = []\<rparr>"

definition sample :: "int \<Rightarrow> int \<Rightarrow> string \<Rightarrow> real \<Rightarrow> result" where
  "sample c st cmt d =
     \<lparr>case_id = c, status_id = st, comment = cmt, duration = d, defects = None,
      test_parametrize = None\<rparr>"

definition long_comment :: string where
  "long_comment = replicate 3999 (CHR ''a'') @ [nl, CHR ''b'']"

definition flat_comment :: string where
  "flat_comment = replicate 4001 (CHR ''a'')"

text \<open>
  Two relations between the state before a function and the state after it: the
  function only called the client, or it also replaced the accumulator by its stable
  sort by case id, restricted to the results some filter keeps (every result, when
  \<^verbatim>\<open>publish_blocked\<close> is true).
\<close>

definition only_sends :: "plugin \<Rightarrow> plugin \<Rightarrow> bool" where
  "only_sends p p' = (\<exists>xs. p' = p\<lparr>sent := sent p @ xs\<rparr>)"

definition sorted_filtered :: "plugin \<Rightarrow> plugin \<Rightarrow> bool" where
  "sorted_filtered p p' =
     (\<exists>keep xs. p' = p\<lparr>results := sort_key case_id (filter keep (results p)), sent := sent p @ xs\<rparr>
                \<and> (publish_blocked p \<longrightarrow> keep = (\<lambda>r. True)))"

text \<open>A client whose every response is one result dictionary without an error, and a
  state with three recorded results, two of them for case 5.\<close>

definition cl_ok :: client where
  "cl_ok h rq =
     \<lparr>r_error = None,
      r_items = [\<lparr>ri_comment = [], ri_status_id = ''1'', ri_error = None\<rparr>],
      r_runs = [], r_tests = []\<rparr>"

definition p_two :: plugin where
  "p_two = p0\<lparr>results := [sample 10 1 [] 0, sample 5 5 ''boom'' 0, sample 5 1 [] 0]\<rparr>"

text \<open>The pairs of test id and message of the matches, in the order of the matches;
  the requests among \<open>rqs\<close> that post a single result for a test id; and sample error
  texts and a sample state.\<close>

definition match_pairs :: "string \<Rightarrow> (string \<times> string) list" where
  "match_pairs error_message = map (\<lambda>m. (group_of m 1, group_of m 2)) (finditer error_message)"

definition posts_for_case :: "int \<Rightarrow> string \<Rightarrow> request list \<Rightarrow> request list" where
  "posts_for_case run t rqs =
     filter (\<lambda>rq. case rq of
                     Post (AddResultForCase run' t') b \<Rightarrow> run' = run \<and> t' = t
                   | _ \<Rightarrow> False) rqs"



definition error_dup :: string where
  "error_dup = ''case 42 x TerraformException: a'' @ [bsl, CHR ''n'']
               @ ''case 42 y TerraformException: b'' @ [bsl, CHR ''n'']
               @ ''case 7 z TerraformException: c'' @ [bsl, CHR ''n'']"

definition error_42_newline :: string where
  "error_42_newline = ''(case 42 ) E   TerraformException: disk full'' @ [nl]"


section \<open>Recording: the status of a Terraform failure\<close>

lemma add_result_loop_eq:
  "add_result_loop test_ids status cmt dfs dur par rs =
     rs @ map (\<lambda>test_id. \<lparr>case_id = test_id,
                           status_id = (if status = 5 \<and> str_in ''TerraformException'' cmt then 8 else status),
                           comment = cmt, duration = dur, defects = dfs, test_parametrize = par\<rparr>) test_ids"
  by (induction test_ids arbitrary: status rs) (simp_all add: Let_def)

text \<open>
  C4. A call of \<^verbatim>\<open>add_result\<close> appends one record per test id and leaves the earlier
  records alone. When the status is the failed code and the comment contains
  \<^verbatim>\<open>TerraformException\<close>, every appended record carries the Terraform-error code; for
  any other status or comment the records carry the status given.
\<close>

theorem add_result_status:
  "results (add_result p test_ids status cmt dfs dur par) =
     results p @ map (\<lambda>test_id. \<lparr>case_id = test_id,
        status_id = (if status = status_failed \<and> str_in ''TerraformException'' cmt
                     then status_terraformerror else status),
        comment = cmt, duration = dur, defects = dfs, test_parametrize = par\<rparr>) test_ids"
  by (simp add: add_result_def add_result_loop_eq status_failed_def status_terraformerror_def)

lemma marker_in_sample: "str_in ''TerraformException'' ''E   TerraformException: apply failed''"
  by (simp add: str_in_def sublist_code)

lemma marker_not_in_sample: "\<not> str_in ''TerraformException'' ''assert 1 == 2''"
  by (simp add: str_in_def sublist_code)

theorem add_result_status_witness:
  "map status_id (results (add_result p0 [3, 4] 5 ''E   TerraformException: apply failed'' None 0 None))
     = [8, 8] \<and>
   map status_id (results (add_result p0 [3, 4] 5 ''assert 1 == 2'' None 0 None)) = [5, 5] \<and>
   map status_id (results (add_result p0 [3] 1 ''E   TerraformException: apply failed'' None 0 None))
     = [1]"
  using add_result_status [of p0 "[3, 4]" 5 "''E   TerraformException: apply failed''" None 0 None]
    add_result_status [of p0 "[3, 4]" 5 "''assert 1 == 2''" None 0 None]
    add_result_status [of p0 "[3]" 1 "''E   TerraformException: apply failed''" None 0 None]
  by (simp add: marker_in_sample marker_not_in_sample p0_def status_failed_def
      status_terraformerror_def)

section \<open>The payload: elapsed time\<close>

lemma py_round_nearest: "\<bar>of_int (py_round x) - x\<bar> \<le> 1 / 2"
  unfolding py_round_def Let_def by (auto simp: abs_le_iff)

lemma str_int_1: "str_int 1 = ''1''"
  by (simp add: str_int_def str_nat.simps digit_char_def)

text \<open>
  C7. In the payload entry of a result, a duration of 0 gives no elapsed field, a
  positive duration below one second gives \<^verbatim>\<open>1s\<close>, and a duration of one second or
  more gives the nearest whole number of seconds followed by \<^verbatim>\<open>s\<close>.
\<close>

theorem elapsed_field:
  "(duration r = 0 \<longrightarrow> e_elapsed (build_entry p r) = None) \<and>
   (0 < duration r \<and> duration r < 1 \<longrightarrow> e_elapsed (build_entry p r) = Some ''1s'') \<and>
   (1 \<le> duration r \<longrightarrow>
      e_elapsed (build_entry p r) = Some (str_int (py_round (duration r)) @ ''s'') \<and>
      \<bar>of_int (py_round (duration r)) - duration r\<bar> \<le> 1 / 2)"
  using py_round_nearest [of "duration r"]
  by (simp add: build_entry_def entry_elapsed_def str_int_1)

theorem elapsed_field_witness:
  "e_elapsed (build_entry p0 (sample 1 1 [] 0)) = None \<and>
   e_elapsed (build_entry p0 (sample 1 1 [] 0.4)) = Some ''1s'' \<and>
   e_elapsed (build_entry p0 (sample 1 1 [] 1.4)) = Some ''1s'' \<and>
   e_elapsed (build_entry p0 (sample 1 1 [] 2.6)) = Some ''3s''"
  using elapsed_field [of "sample 1 1 [] 0" p0] elapsed_field [of "sample 1 1 [] 0.4" p0]
    elapsed_field [of "sample 1 1 [] 1.4" p0] elapsed_field [of "sample 1 1 [] 2.6" p0]
  by (simp add: sample_def py_round_def str_int_def str_nat.simps digit_char_def)

section \<open>The payload: comments\<close>

lemma indent_newlines_append:
  "indent_newlines (xs @ ys) = indent_newlines xs @ indent_newlines ys"
  by (simp add: indent_newlines_def)

lemma indent_newlines_no_nl: "nl \<notin> set s \<Longrightarrow> indent_newlines s = s"
  by (induction s) (auto simp: indent_newlines_def)

lemma length_last_chars: "n \<le> length s \<Longrightarrow> length (last_chars n s) = n"
  by (simp add: last_chars_def)

lemma last_chars_short: "length s \<le> n \<Longrightarrow> last_chars n s = s"
  by (simp add: last_chars_def)

lemma suffix_last_chars: "suffix (last_chars n s) s"
  by (simp add: last_chars_def suffix_drop)

lemma entry_comment_nonempty:
  "comment r \<noteq> [] \<Longrightarrow>
     entry_comment p r = Some (comment_prefix p r @ pytest_result_text (comment r))"
  by (simp add: entry_comment_def comment_prefix_def split: option.splits)

lemma last_chars_long_comment:
  "last_chars COMMENT_SIZE_LIMIT long_comment = replicate 3998 (CHR ''a'') @ [nl, CHR ''b'']"
  by (simp add: last_chars_def COMMENT_SIZE_LIMIT_def long_comment_def)

lemma last_chars_flat_comment:
  "last_chars COMMENT_SIZE_LIMIT flat_comment = replicate 4000 (CHR ''a'')"
  by (simp add: last_chars_def COMMENT_SIZE_LIMIT_def flat_comment_def)

lemma indent_replicate_a: "indent_newlines (replicate n (CHR ''a'')) = replicate n (CHR ''a'')"
  by (rule indent_newlines_no_nl) (simp add: nl_def)

text \<open>
  C5 fails as stated: the tail is re-indented before it is uploaded, so a comment of
  4001 characters whose last 4000 contain a newline is not uploaded with those 4000
  characters at its end.
\<close>

theorem comment_tail_counterexample:
  "\<not> ends_with_tail (e_comment (build_entry p0 (sample 1 5 long_comment 0)))
                      (comment (sample 1 5 long_comment 0))"
proof -
  let ?r = "sample 1 5 long_comment 0"
  have c: "comment ?r = long_comment" by (simp add: sample_def)
  have ne: "comment ?r \<noteq> []" by (simp add: sample_def long_comment_def)
  have len: "COMMENT_SIZE_LIMIT < length long_comment"
    by (simp add: COMMENT_SIZE_LIMIT_def long_comment_def)
  have ec: "entry_comment p0 ?r = Some (comment_prefix p0 ?r @ pytest_result_text long_comment)"
    using entry_comment_nonempty [OF ne, of p0] by (simp only: c)
  have cp: "comment_prefix p0 ?r = []"
    by (simp add: comment_prefix_def parametrize_text_def p0_def sample_def)
  have tl: "indent_newlines [nl, CHR ''b''] = [nl] @ ''    '' @ ''b''"
    by (simp add: indent_newlines_def nl_def)
  have pt: "pytest_result_text long_comment =
      (''# Pytest result: #\<newline>'' @ ''Log truncated\<newline>...\<newline>'' @ ''    '' @ replicate 3998 (CHR ''a''))
       @ [nl] @ ''    '' @ ''b''"
    using len
    by (simp add: pytest_result_text_def last_chars_long_comment indent_newlines_append
        indent_replicate_a tl)
  have up: "e_comment (build_entry p0 ?r) =
      Some ((''# Pytest result: #\<newline>'' @ ''Log truncated\<newline>...\<newline>'' @ ''    '' @ replicate 3998 (CHR ''a''))
            @ [nl] @ ''    '' @ ''b'')"
    by (simp only: build_entry_def entry.simps ec cp pt append_Nil)
  show ?thesis
    unfolding ends_with_tail_def up c last_chars_long_comment option.case
    by (simp add: suffix_to_prefix nl_def)
qed

text \<open>
  C5, amended. For a comment longer than the limit, the uploaded comment is the prefix,
  the heading, the truncation marker, four spaces and the last \<open>COMMENT_SIZE_LIMIT\<close>
  characters of the comment re-indented at their newlines; when those characters hold no
  newline, the uploaded comment ends with exactly them. For a comment at or under the
  limit no marker is uploaded: when the comment is not empty, the uploaded comment is
  the prefix, the heading, four spaces and the whole comment re-indented; when it is
  empty, the uploaded comment is the custom comment.
\<close>

theorem comment_truncation:
  "(COMMENT_SIZE_LIMIT < length (comment r) \<longrightarrow>
      e_comment (build_entry p r) =
        Some (comment_prefix p r @ ''# Pytest result: #\<newline>'' @ ''Log truncated\<newline>...\<newline>''
              @ ''    '' @ indent_newlines (last_chars COMMENT_SIZE_LIMIT (comment r))) \<and>
      length (last_chars COMMENT_SIZE_LIMIT (comment r)) = COMMENT_SIZE_LIMIT \<and>
      suffix (last_chars COMMENT_SIZE_LIMIT (comment r)) (comment r) \<and>
      (nl \<notin> set (last_chars COMMENT_SIZE_LIMIT (comment r)) \<longrightarrow>
         ends_with_tail (e_comment (build_entry p r)) (comment r))) \<and>
   (comment r \<noteq> [] \<and> length (comment r) \<le> COMMENT_SIZE_LIMIT \<longrightarrow>
      e_comment (build_entry p r) =
        Some (comment_prefix p r @ ''# Pytest result: #\<newline>'' @ ''    ''
              @ indent_newlines (comment r))) \<and>
   (comment r = [] \<longrightarrow> e_comment (build_entry p r) = custom_comment p)"
proof (intro conjI impI)
  assume long: "COMMENT_SIZE_LIMIT < length (comment r)"
  then have ne: "comment r \<noteq> []" by auto
  from long show up: "e_comment (build_entry p r) =
        Some (comment_prefix p r @ ''# Pytest result: #\<newline>'' @ ''Log truncated\<newline>...\<newline>''
              @ ''    '' @ indent_newlines (last_chars COMMENT_SIZE_LIMIT (comment r)))"
    by (simp add: build_entry_def entry_comment_nonempty [OF ne] pytest_result_text_def)
  from long show "length (last_chars COMMENT_SIZE_LIMIT (comment r)) = COMMENT_SIZE_LIMIT"
    by (simp add: length_last_chars)
  show "suffix (last_chars COMMENT_SIZE_LIMIT (comment r)) (comment r)"
    by (rule suffix_last_chars)
  assume "nl \<notin> set (last_chars COMMENT_SIZE_LIMIT (comment r))"
  then have "indent_newlines (last_chars COMMENT_SIZE_LIMIT (comment r))
             = last_chars COMMENT_SIZE_LIMIT (comment r)"
    by (rule indent_newlines_no_nl)
  with up show "ends_with_tail (e_comment (build_entry p r)) (comment r)"
    by (simp add: ends_with_tail_def suffix_def)
next
  assume "comment r \<noteq> [] \<and> length (comment r) \<le> COMMENT_SIZE_LIMIT"
  then show "e_comment (build_entry p r) =
        Some (comment_prefix p r @ ''# Pytest result: #\<newline>'' @ ''    ''
              @ indent_newlines (comment r))"
    by (simp add: build_entry_def entry_comment_nonempty pytest_result_text_def last_chars_short)
next
  assume "comment r = []"
  then show "e_comment (build_entry p r) = custom_comment p"
    by (simp add: build_entry_def entry_comment_def)
qed

theorem comment_truncation_witness:
  "COMMENT_SIZE_LIMIT < length (comment (sample 1 5 flat_comment 0)) \<and>
   ends_with_tail (e_comment (build_entry p0 (sample 1 5 flat_comment 0)))
                  (comment (sample 1 5 flat_comment 0)) \<and>
   e_comment (build_entry p0 (sample 1 5 long_comment 0)) =
     Some (''# Pytest result: #\<newline>Log truncated\<newline>...\<newline>    ''
           @ replicate 3998 (CHR ''a'') @ ''\<newline>    b'') \<and>
   e_comment (build_entry p0 (sample 1 5 ''a\<newline>b'' 0)) = Some ''# Pytest result: #\<newline>    a\<newline>    b'' \<and>
   e_comment (build_entry p0 (sample 1 1 [] 0)) = None"
proof -
  have flat: "COMMENT_SIZE_LIMIT < length (comment (sample 1 5 flat_comment 0))"
    by (simp add: sample_def flat_comment_def COMMENT_SIZE_LIMIT_def)
  have no_nl: "nl \<notin> set (last_chars COMMENT_SIZE_LIMIT (comment (sample 1 5 flat_comment 0)))"
    by (simp add: sample_def last_chars_flat_comment nl_def)
  have long: "COMMENT_SIZE_LIMIT < length (comment (sample 1 5 long_comment 0))"
    by (simp add: sample_def long_comment_def COMMENT_SIZE_LIMIT_def)
  have short: "comment (sample 1 5 ''a\<newline>b'' 0) \<noteq> [] \<and>
               length (comment (sample 1 5 ''a\<newline>b'' 0)) \<le> COMMENT_SIZE_LIMIT"
    by (simp add: sample_def COMMENT_SIZE_LIMIT_def)
  have pre: "comment_prefix p0 (sample c st cmt d) = []" for c st cmt d
    by (simp add: comment_prefix_def parametrize_text_def p0_def sample_def)
  have tl: "indent_newlines [nl, CHR ''b''] = ''\<newline>    b''"
    by (simp add: indent_newlines_def nl_def)
  have sh: "indent_newlines ''a\<newline>b'' = ''a\<newline>    b''"
    by (simp add: indent_newlines_def nl_def)
  from comment_truncation [of "sample 1 5 flat_comment 0" p0] flat no_nl
  have 1: "ends_with_tail (e_comment (build_entry p0 (sample 1 5 flat_comment 0)))
                  (comment (sample 1 5 flat_comment 0))"
    by blast
  from comment_truncation [of "sample 1 5 long_comment 0" p0] long
  have "e_comment (build_entry p0 (sample 1 5 long_comment 0)) =
        Some (comment_prefix p0 (sample 1 5 long_comment 0) @ ''# Pytest result: #\<newline>''
              @ ''Log truncated\<newline>...\<newline>'' @ ''    ''
              @ indent_newlines (last_chars COMMENT_SIZE_LIMIT (comment (sample 1 5 long_comment 0))))"
    by blast
  then have 2: "e_comment (build_entry p0 (sample 1 5 long_comment 0)) =
     Some (''# Pytest result: #\<newline>Log truncated\<newline>...\<newline>    ''
           @ replicate 3998 (CHR ''a'') @ ''\<newline>    b'')"
    by (simp add: pre) (simp add: sample_def last_chars_long_comment indent_newlines_append
        indent_replicate_a tl)
  from comment_truncation [of "sample 1 5 ''a\<newline>b'' 0" p0] short
  have "e_comment (build_entry p0 (sample 1 5 ''a\<newline>b'' 0)) =
        Some (comment_prefix p0 (sample 1 5 ''a\<newline>b'' 0) @ ''# Pytest result: #\<newline>'' @ ''    ''
              @ indent_newlines (comment (sample 1 5 ''a\<newline>b'' 0)))"
    by blast
  then have 3: "e_comment (build_entry p0 (sample 1 5 ''a\<newline>b'' 0)) =
       Some ''# Pytest result: #\<newline>    a\<newline>    b''"
    by (simp add: pre) (simp add: sample_def sh)
  from comment_truncation [of "sample 1 1 [] 0" p0]
  have 4: "e_comment (build_entry p0 (sample 1 1 [] 0)) = None"
    by (simp add: sample_def p0_def)
  from flat 1 2 3 4 show ?thesis by blast
qed

text \<open>
  C10. A result whose comment is the empty string is uploaded with the configured
  custom comment (\<open>None\<close> when none is configured) as its comment field, whatever its
  parametrization; the heading, the indentation and the truncation are applied to
  the results with a non-empty comment.
\<close>

theorem empty_comment_entry:
  "(comment r = [] \<longrightarrow> e_comment (build_entry p r) = custom_comment p) \<and>
   (comment r \<noteq> [] \<longrightarrow>
      e_comment (build_entry p r) = Some (comment_prefix p r @ pytest_result_text (comment r)))"
  by (simp add: build_entry_def entry_comment_nonempty) (simp add: entry_comment_def)

theorem empty_comment_entry_witness:
  "e_comment (build_entry (p0\<lparr>custom_comment := Some ''nightly build''\<rparr>) (sample 1 1 [] 0))
     = Some ''nightly build'' \<and>
   e_comment (build_entry p0 (sample 1 1 [] 0)) = None \<and>
   e_comment (build_entry (p0\<lparr>custom_comment := Some ''nightly build''\<rparr>) (sample 1 5 ''boom'' 0))
     = Some ''nightly build\<newline># Pytest result: #\<newline>    boom''"
  using empty_comment_entry [of "sample 1 1 [] 0" "p0\<lparr>custom_comment := Some ''nightly build''\<rparr>"]
    empty_comment_entry [of "sample 1 1 [] 0" p0]
    empty_comment_entry [of "sample 1 5 ''boom'' 0" "p0\<lparr>custom_comment := Some ''nightly build''\<rparr>"]
  by (simp add: sample_def p0_def comment_prefix_def parametrize_text_def pytest_result_text_def
      COMMENT_SIZE_LIMIT_def last_chars_def indent_newlines_def nl_def)

section \<open>What the publishing functions change\<close>



lemma only_sends_append: "only_sends p (p\<lparr>sent := sent p @ xs\<rparr>)"
  unfolding only_sends_def by blast

lemma sorted_filtered_then_sends:
  assumes "sorted_filtered p p'" and "only_sends p' p''"
  shows "sorted_filtered p p''"
proof -
  from assms(1) obtain keep xs where
    1: "p' = p\<lparr>results := sort_key case_id (filter keep (results p)), sent := sent p @ xs\<rparr>"
    and b: "publish_blocked p \<longrightarrow> keep = (\<lambda>r. True)"
    unfolding sorted_filtered_def by blast
  from assms(2) obtain ys where 2: "p'' = p'\<lparr>sent := sent p' @ ys\<rparr>"
    unfolding only_sends_def by blast
  have "p'' = p\<lparr>results := sort_key case_id (filter keep (results p)), sent := sent p @ (xs @ ys)\<rparr>"
    by (simp add: 1 2)
  with b show ?thesis unfolding sorted_filtered_def by blast
qed




lemma send_snd: "snd (send cl rq p) = p\<lparr>sent := sent p @ [rq]\<rparr>"
  by (simp add: send_def)


lemma add_terraform_error_results_eq:
  "add_terraform_error_results cl run t m p = p\<lparr>sent := sent p @ [terraform_request run (t, m)]\<rparr>"
  by (simp add: add_terraform_error_results_def send_snd terraform_request_def)

lemma terraform_path_eq:
  "terraform_path cl run te p = p\<lparr>sent := sent p @ map (terraform_request run) te\<rparr>"
  unfolding terraform_path_def
  by (induction te arbitrary: p) (auto simp: add_terraform_error_results_eq)





lemma foldl_items_eq:
  "foldl (\<lambda>q it. if str_in ''TerraformException'' (ri_comment it)
                  then add_terraform_error_results cl run (ri_status_id it) (ri_comment it) q
                  else q) p items
   = p\<lparr>sent := sent p @ map (\<lambda>it. terraform_request run (ri_status_id it, ri_comment it))
                             (filter (\<lambda>it. str_in ''TerraformException'' (ri_comment it)) items)\<rparr>"
  by (induction items arbitrary: p) (simp_all add: add_terraform_error_results_eq)

lemma post_batch_snd:
  "snd (post_batch cl run p) =
     p\<lparr>sent := sent p @ Post (AddResultsForCases run) (Results (map (build_entry p) (results p)))
              # map (\<lambda>it. terraform_request run (ri_status_id it, ri_comment it))
                    (filter (\<lambda>it. str_in ''TerraformException'' (ri_comment it))
                       (r_items (cl (sent p) (Post (AddResultsForCases run)
                                                   (Results (map (build_entry p) (results p)))))))\<rparr>"
  by (simp add: post_batch_def send_def foldl_items_eq Let_def split: list.splits)

lemma post_batch_sends: "only_sends p (snd (post_batch cl run p))"
  unfolding post_batch_snd by (rule only_sends_append)

lemma sort_and_filter_form: "sorted_filtered p (snd (sort_and_filter cl run p))"
proof (cases "publish_blocked p")
  case True
  then have "snd (sort_and_filter cl run p) =
      p\<lparr>results := sort_key case_id (filter (\<lambda>r. True) (results p)), sent := sent p @ []\<rparr>"
    by (simp add: sort_and_filter_def)
  then show ?thesis unfolding sorted_filtered_def by blast
next
  case False
  show ?thesis
  proof (cases "str_truthy (r_error (cl (sent p) (Get (GetTests run))))")
    case True
    with False have "snd (sort_and_filter cl run p) =
      p\<lparr>results := sort_key case_id (filter (\<lambda>r. True) (results p)), sent := sent p @ [Get (GetTests run)]\<rparr>"
      by (simp add: sort_and_filter_def get_tests_def send_def)
    with False show ?thesis unfolding sorted_filtered_def by blast
  next
    case t: False
    let ?keep = "\<lambda>r. case_id r \<notin> set (blocked_tests_list (r_tests (cl (sent p) (Get (GetTests run)))))"
    from False t have "snd (sort_and_filter cl run p) =
      p\<lparr>results := sort_key case_id (filter ?keep (results p)), sent := sent p @ [Get (GetTests run)]\<rparr>"
      by (simp add: sort_and_filter_def get_tests_def send_def filter_sort)
    with False show ?thesis unfolding sorted_filtered_def by blast
  qed
qed

lemma add_results_form: "sorted_filtered p (snd (add_results cl run p))"
proof (cases "sort_and_filter cl run p")
  case (Pair e p')
  with sort_and_filter_form [of p cl run] have sf: "sorted_filtered p p'" by simp
  show ?thesis
  proof (cases e)
    case None
    with Pair have "snd (add_results cl run p) = snd (post_batch cl run p')"
      by (simp add: add_results_def)
    with sf post_batch_sends [of p' cl run] show ?thesis
      by (auto intro: sorted_filtered_then_sends)
  next
    case (Some a)
    with Pair sf show ?thesis by (simp add: add_results_def)
  qed
qed




lemma sorted_filtered_results:
  assumes "sorted_filtered p p'"
  shows "\<exists>keep. results p' = sort_key case_id (filter keep (results p)) \<and>
           (publish_blocked p \<longrightarrow> keep = (\<lambda>r. True))"
proof -
  from assms obtain keep xs where
    "p' = p\<lparr>results := sort_key case_id (filter keep (results p)), sent := sent p @ xs\<rparr>"
    and b: "publish_blocked p \<longrightarrow> keep = (\<lambda>r. True)"
    unfolding sorted_filtered_def by blast
  then have "results p' = sort_key case_id (filter keep (results p))" by simp
  with b show ?thesis by blast
qed


lemma sort_and_filter_ok_post:
  assumes "fst (add_results cl run p) \<noteq> Inl TypeError"
  shows "Post (AddResultsForCases run)
              (Results (map (build_entry p) (results (snd (add_results cl run p)))))
         \<in> set (sent (snd (add_results cl run p)))"
proof (cases "sort_and_filter cl run p")
  case (Pair e p')
  from sort_and_filter_form [of p cl run] Pair have "sorted_filtered p p'" by simp
  then obtain keep xs where
    p': "p' = p\<lparr>results := sort_key case_id (filter keep (results p)), sent := sent p @ xs\<rparr>"
    unfolding sorted_filtered_def by blast
  have be: "build_entry p' = build_entry p"
    by (rule ext) (simp add: p' build_entry_def entry_comment_def)
  show ?thesis
  proof (cases e)
    case None
    with Pair have a: "add_results cl run p = post_batch cl run p'"
      by (simp add: add_results_def)
    show ?thesis
      unfolding a post_batch_snd by (simp add: be)
  next
    case (Some a)
    with Pair have "a = TypeError"
      by (auto simp: sort_and_filter_def Let_def split: if_splits prod.splits option.splits)
    with Some Pair assms show ?thesis by (simp add: add_results_def)
  qed
qed

section \<open>The batch is sorted, stably\<close>

text \<open>
  C6. After \<^verbatim>\<open>add_results\<close>, whatever it returned or raised, the accumulator is in
  non-decreasing order of case id; it is the stable sort of the results that were kept
  (all of them when \<^verbatim>\<open>publish_blocked\<close> is true), so the results of any one case id
  stand in the order in which they were recorded. Unless \<^verbatim>\<open>get_tests\<close> failed, the
  batch request was sent with the entries of the accumulator, in its order.
\<close>

theorem results_sorted_stable:
  "sorted (map case_id (results (snd (add_results cl run p)))) \<and>
   (\<exists>keep. results (snd (add_results cl run p)) = sort_key case_id (filter keep (results p)) \<and>
       (\<forall>k. filter (\<lambda>r. case_id r = k) (results (snd (add_results cl run p)))
            = filter (\<lambda>r. case_id r = k) (filter keep (results p))) \<and>
       (publish_blocked p \<longrightarrow> keep = (\<lambda>r. True))) \<and>
   (fst (add_results cl run p) \<noteq> Inl TypeError \<longrightarrow>
      Post (AddResultsForCases run)
           (Results (map (build_entry p) (results (snd (add_results cl run p)))))
      \<in> set (sent (snd (add_results cl run p))))"
proof -
  from sorted_filtered_results [OF add_results_form [of p cl run]] obtain keep where
    r: "results (snd (add_results cl run p)) = sort_key case_id (filter keep (results p))"
    and b: "publish_blocked p \<longrightarrow> keep = (\<lambda>r. True)"
    by blast
  have s: "sorted (map case_id (results (snd (add_results cl run p))))"
    by (simp add: r)
  have st: "\<forall>k. filter (\<lambda>r. case_id r = k) (results (snd (add_results cl run p)))
            = filter (\<lambda>r. case_id r = k) (filter keep (results p))"
    unfolding r by (simp only: sort_key_stable) simp
  from s r st b sort_and_filter_ok_post [of cl run p] show ?thesis by blast
qed

theorem results_sorted_stable_witness:
  "publish_blocked p_two \<and>
   fst (add_results cl_ok 1 p_two) \<noteq> Inl TypeError \<and>
   results (snd (add_results cl_ok 1 p_two)) = [sample 5 5 ''boom'' 0, sample 5 1 [] 0, sample 10 1 [] 0] \<and>
   Post (AddResultsForCases 1)
        (Results (map (build_entry p_two) [sample 5 5 ''boom'' 0, sample 5 1 [] 0, sample 10 1 [] 0]))
     \<in> set (sent (snd (add_results cl_ok 1 p_two)))"
proof -
  have pb: "publish_blocked p_two" by (simp add: p_two_def p0_def)
  have ok: "fst (add_results cl_ok 1 p_two) \<noteq> Inl TypeError"
    by (simp add: add_results_def sort_and_filter_def post_batch_def send_def cl_ok_def pb
        str_truthy_def Let_def)
  from results_sorted_stable [of cl_ok 1 p_two] pb obtain keep where
    "results (snd (add_results cl_ok 1 p_two)) = sort_key case_id (filter keep (results p_two))"
    and "keep = (\<lambda>r. True)"
    by blast
  then have r: "results (snd (add_results cl_ok 1 p_two)) =
      [sample 5 5 ''boom'' 0, sample 5 1 [] 0, sample 10 1 [] 0]"
    by (simp add: p_two_def sample_def)
  from results_sorted_stable [of cl_ok 1 p_two] ok
  have "Post (AddResultsForCases 1)
           (Results (map (build_entry p_two) (results (snd (add_results cl_ok 1 p_two)))))
      \<in> set (sent (snd (add_results cl_ok 1 p_two)))"
    by blast
  with pb ok r show ?thesis by simp
qed

section \<open>The session-finish hook and the accumulator\<close>










section \<open>The only deliberate exception\<close>

lemma item1_error: "item1 xs = Inl e \<Longrightarrow> e = IndexError"
  by (cases xs rule: item1.cases) simp_all

lemma item0_error: "item0 xs = Inl e \<Longrightarrow> e = IndexError"
  by (cases xs) simp_all

lemma invalid_ids_of_parts_error: "invalid_ids_of_parts parts = Inl e \<Longrightarrow> e = IndexError"
  by (induction parts)
     (auto split: if_splits sum.splits dest: item1_error item0_error)

lemma generic_path_error: "generic_path cl run error p = (Some e, p') \<Longrightarrow> e = IndexError"
  by (auto simp: generic_path_def invalid_test_ids_of_def split: sum.splits
      dest: invalid_ids_of_parts_error)

lemma reconcile_error: "reconcile cl run error p = (Some e, p') \<Longrightarrow> e = IndexError"
  by (auto simp: reconcile_def Let_def split: if_splits dest: generic_path_error)

lemma sort_and_filter_error: "sort_and_filter cl run p = (Some e, p') \<Longrightarrow> e = TypeError"
  by (auto simp: sort_and_filter_def Let_def split: if_splits prod.splits option.splits)

lemma post_batch_error: "post_batch cl run p = (Inl e, p') \<Longrightarrow> e = UnboundLocalError"
  by (auto simp: post_batch_def Let_def split: if_splits prod.splits list.splits)

lemma add_results_error:
  "add_results cl run p = (Inl e, p') \<Longrightarrow> e = TypeError \<or> e = UnboundLocalError"
  by (auto simp: add_results_def split: prod.splits option.splits
      dest: sort_and_filter_error post_batch_error)

lemma publish_results_for_run_error:
  "publish_results_for_run cl run p = (Some e, p') \<Longrightarrow> e \<noteq> NoResultsToPublish"
  by (auto simp: publish_results_for_run_def
      split: prod.splits sum.splits option.splits if_splits
      dest: add_results_error reconcile_error)

lemma publish_runs_error:
  "publish_runs cl runs p = (Some e, p') \<Longrightarrow> e \<noteq> NoResultsToPublish"
proof (induction runs arbitrary: p)
  case Nil
  then show ?case by simp
next
  case (Cons run runs)
  obtain e' q where pr: "publish_results_for_run cl run p = (e', q)"
    by (cases "publish_results_for_run cl run p")
  show ?case
  proof (cases e')
    case None
    with Cons pr show ?thesis by simp
  next
    case (Some a)
    with Cons.prems pr have "a = e" by simp
    with publish_results_for_run_error [of cl run p a q] pr Some show ?thesis by simp
  qed
qed

lemma publish_step_error:
  "publish_step cl p = (Some e, p') \<Longrightarrow> e \<noteq> NoResultsToPublish"
  by (auto simp: publish_step_def Let_def split: if_splits prod.splits
      dest: publish_results_for_run_error publish_runs_error)

text \<open>
  C2. With an empty accumulator \<^verbatim>\<open>pytest_sessionfinish\<close> raises the no-results error
  and leaves the state as it was, the record of client calls included: no request is
  made. It raises this error in no other case.
\<close>

theorem no_results_error:
  "(results p = [] \<longrightarrow> pytest_sessionfinish cl p = (Some NoResultsToPublish, p)) \<and>
   (fst (pytest_sessionfinish cl p) = Some NoResultsToPublish \<longrightarrow> results p = [])"
proof (intro conjI impI)
  assume "results p = []"
  then show "pytest_sessionfinish cl p = (Some NoResultsToPublish, p)"
    by (simp add: pytest_sessionfinish_def)
next
  assume a: "fst (pytest_sessionfinish cl p) = Some NoResultsToPublish"
  show "results p = []"
  proof (rule ccontr)
    assume ne: "results p \<noteq> []"
    obtain e p' where ps: "publish_step cl p = (e, p')"
      by (cases "publish_step cl p")
    with ne a have "e = Some NoResultsToPublish"
      by (cases e) (simp_all add: pytest_sessionfinish_def)
    with publish_step_error [of cl p NoResultsToPublish p'] ps show False by simp
  qed
qed

theorem no_results_error_witness:
  "results p0 = [] \<and> pytest_sessionfinish cl_ok p0 = (Some NoResultsToPublish, p0) \<and>
   sent (snd (pytest_sessionfinish cl_ok p0)) = [] \<and>
   fst (pytest_sessionfinish cl_ok p_two) = None"
proof -
  have e: "results p0 = []" by (simp add: p0_def)
  with no_results_error [of p0 cl_ok]
  have 1: "pytest_sessionfinish cl_ok p0 = (Some NoResultsToPublish, p0)" by blast
  then have 2: "sent (snd (pytest_sessionfinish cl_ok p0)) = []" by (simp add: p0_def)
  have 3: "fst (pytest_sessionfinish cl_ok p_two) = None"
    by (simp add: pytest_sessionfinish_def publish_step_def publish_results_for_run_def
        add_results_def sort_and_filter_def post_batch_def send_def cl_ok_def close_step_def
        str_truthy_def Let_def p_two_def p0_def)
  from e 1 2 3 show ?thesis by blast
qed

section \<open>Reconciliation after a failed batch\<close>

lemma foldl_update_distinct:
  "distinct (map fst d) \<Longrightarrow>
   distinct (map fst (foldl (\<lambda>d m. AList.update (f m) (g m) d) d ms))"
  by (induction ms arbitrary: d) (simp_all add: distinct_update)

lemma foldl_update_map_of:
  "map_of (foldl (\<lambda>d m. AList.update (f m) (g m) d) d ms)
   = map_of (rev (map (\<lambda>m. (f m, g m)) ms) @ d)"
  by (induction ms arbitrary: d) (simp_all add: update_conv')

lemma extract_distinct: "distinct (map fst (extract_terraform_errors e))"
  unfolding extract_terraform_errors_def by (rule foldl_update_distinct) simp

lemma extract_map_of: "map_of (extract_terraform_errors e) = map_of (rev (match_pairs e))"
  unfolding extract_terraform_errors_def match_pairs_def
  by (simp add: foldl_update_map_of)


lemma filter_key_distinct:
  "distinct (map fst xs) \<Longrightarrow> (t, v) \<in> set xs \<Longrightarrow> filter (\<lambda>tv. fst tv = t) xs = [(t, v)]"
proof (induction xs)
  case Nil
  then show ?case by simp
next
  case (Cons x xs)
  show ?case
  proof (cases "fst x = t")
    case True
    with Cons.prems have "x = (t, v)"
      by (cases x) (auto simp: image_iff)
    moreover from True Cons.prems have "filter (\<lambda>tv. fst tv = t) xs = []"
      by (auto simp: filter_empty_conv image_iff)
    ultimately show ?thesis by simp
  next
    case False
    with Cons show ?thesis by auto
  qed
qed

lemma posts_for_case_terraform:
  "posts_for_case run t (map (terraform_request run) xs)
   = map (terraform_request run) (filter (\<lambda>tv. fst tv = t) xs)"
  by (induction xs) (simp_all add: posts_for_case_def terraform_request_def)

lemma reconcile_terraform:
  "extract_terraform_errors e \<noteq> [] \<Longrightarrow>
   reconcile cl run e p =
     (None, p\<lparr>sent := sent p @ map (terraform_request run) (extract_terraform_errors e)\<rparr>)"
  by (simp add: reconcile_def Let_def terraform_path_eq)






lemma finditer_error_dup: "finditer error_dup = [[''42'', ''a''], [''42'', ''b''], [''7'', ''c'']]"
  by code_simp


lemma finditer_error_42_newline: "finditer error_42_newline = []"
  by code_simp



lemma extract_error_dup: "extract_terraform_errors error_dup = [(''42'', ''b''), (''7'', ''c'')]"
  by (simp add: extract_terraform_errors_def finditer_error_dup group_of_def)




text \<open>
  C9. The extracted dictionary has no test id twice; the message of a test id is that
  of its last match; when the dictionary is not empty, reconciliation submits exactly
  its entries, so that at most one submission is made for any test id.
\<close>

theorem one_message_per_case:
  "distinct (map fst (extract_terraform_errors e)) \<and>
   map_of (extract_terraform_errors e) = map_of (rev (match_pairs e)) \<and>
   (extract_terraform_errors e \<noteq> [] \<longrightarrow>
      reconcile cl run e p =
        (None, p\<lparr>sent := sent p @ map (terraform_request run) (extract_terraform_errors e)\<rparr>)) \<and>
   length (posts_for_case run t (map (terraform_request run) (extract_terraform_errors e))) \<le> 1"
proof -
  have "length (filter (\<lambda>tv. fst tv = t) (extract_terraform_errors e)) \<le> 1"
  proof (cases "t \<in> fst ` set (extract_terraform_errors e)")
    case True
    then obtain v where "(t, v) \<in> set (extract_terraform_errors e)" by auto
    from filter_key_distinct [OF extract_distinct this] show ?thesis by simp
  next
    case False
    then have "filter (\<lambda>tv. fst tv = t) (extract_terraform_errors e) = []"
      by (auto simp: filter_empty_conv)
    then show ?thesis by simp
  qed
  then have "length (posts_for_case run t (map (terraform_request run) (extract_terraform_errors e))) \<le> 1"
    by (simp add: posts_for_case_terraform)
  with extract_distinct [of e] extract_map_of [of e] reconcile_terraform [of e cl run p]
  show ?thesis by blast
qed

theorem one_message_per_case_witness:
  "extract_terraform_errors error_dup = [(''42'', ''b''), (''7'', ''c'')] \<and>
   match_pairs error_dup = [(''42'', ''a''), (''42'', ''b''), (''7'', ''c'')] \<and>
   sent (snd (reconcile cl_ok 1 error_dup p_two)) =
     [Post (AddResultForCase 1 ''42'') (StatusComment ''8'' ''Terraform Exception: b''),
      Post (AddResultForCase 1 ''7'') (StatusComment ''8'' ''Terraform Exception: c'')]"
proof -
  have ne: "extract_terraform_errors error_dup \<noteq> []"
    by (simp add: extract_error_dup)
  with one_message_per_case [of error_dup cl_ok 1 p_two]
  have "reconcile cl_ok 1 error_dup p_two =
        (None, p_two\<lparr>sent := sent p_two @ map (terraform_request 1) (extract_terraform_errors error_dup)\<rparr>)"
    by blast
  then have "sent (snd (reconcile cl_ok 1 error_dup p_two)) =
     [Post (AddResultForCase 1 ''42'') (StatusComment ''8'' ''Terraform Exception: b''),
      Post (AddResultForCase 1 ''7'') (StatusComment ''8'' ''Terraform Exception: c'')]"
    by (simp add: extract_error_dup terraform_request_def p_two_def p0_def)
  moreover have "match_pairs error_dup = [(''42'', ''a''), (''42'', ''b''), (''7'', ''c'')]"
    by (simp add: match_pairs_def finditer_error_dup group_of_def)
  ultimately show ?thesis by (simp add: extract_error_dup)
qed


section \<open>The generic path\<close>





end
